theory Spec2Isabelle
  imports Main "HOL-Library.Word"
begin

section \<open>JavaScript strings\<close>

text \<open>
  A JavaScript string is a sequence of UTF-16 code units; \<open>length\<close>, \<open>substring\<close>, \<open>trim\<close>
  and a regular expression without the \<open>u\<close> flag all work on code units.
\<close>

type_synonym code_unit = "16 word"
type_synonym jsstring = "code_unit list"

definition js :: "string \<Rightarrow> jsstring" where
  \<comment> \<open>An ASCII literal of the source as a JavaScript string.\<close>
  "js s = map of_char s"

definition isSpace :: "code_unit \<Rightarrow> bool" where
  \<comment> \<open>The class \<open>\s\<close>, which is also what \<open>trim\<close> strips: WhiteSpace and LineTerminator.\<close>
  "isSpace c = (c \<in> set [0x9, 0xA, 0xB, 0xC, 0xD, 0x20, 0xA0, 0x1680,
      0x2000, 0x2001, 0x2002, 0x2003, 0x2004, 0x2005, 0x2006, 0x2007, 0x2008, 0x2009, 0x200A,
      0x2028, 0x2029, 0x202F, 0x205F, 0x3000, 0xFEFF])"

definition trim :: "jsstring \<Rightarrow> jsstring" where
  \<comment> \<open>\<open>s.trim()\<close>\<close>
  "trim s = rev (dropWhile isSpace (rev (dropWhile isSpace s)))"

function split_ws :: "jsstring \<Rightarrow> jsstring \<Rightarrow> jsstring list" where
  \<comment> \<open>\<open>s.split(/\s+/)\<close> is \<open>split_ws [] s\<close>: every maximal run of white space separates two
      pieces, so white space at either end gives an empty piece there, and the empty
      string gives the one piece \<open>""\<close>. The first argument is the piece being read, reversed.\<close>
  "split_ws acc [] = [rev acc]"
| "split_ws acc (c # cs) =
     (if isSpace c then rev acc # split_ws [] (dropWhile isSpace cs)
      else split_ws (c # acc) cs)"
  by pat_completeness auto
termination
  by (relation "measure (\<lambda>(acc, s). length s)")
     (auto simp: less_Suc_eq_le length_dropWhile_le)

fun join_sp :: "jsstring list \<Rightarrow> jsstring" where
  \<comment> \<open>\<open>ws.join(' ')\<close>\<close>
  "join_sp [] = []"
| "join_sp [w] = w"
| "join_sp (w # ws) = w @ 0x20 # join_sp ws"



section \<open>Data model\<close>

datatype role = User | Assistant

record message =
  role :: role
  content :: jsstring

record chat =
  chat_id :: jsstring
  title :: jsstring
  messages :: "message list"
  createdAt :: nat

datatype upload_status = Idle | Uploading | Success | Error

text \<open>
  The state variables of the component \<open>AskQuestionPage\<close> that the handlers below read
  or write. \<open>activeChatId\<close> is \<open>null\<close> (\<open>None\<close>) or a string.
\<close>

record state =
  chats :: "chat list"
  activeChatId :: "jsstring option"
  input :: jsstring
  showFeatures :: bool
  isLoading :: bool
  uploadStatus :: upload_status
  uploadedFileName :: jsstring
  docGenMode :: bool
  docType :: jsstring

fun truthy :: "jsstring option \<Rightarrow> bool" where
  \<comment> \<open>The test \<open>if (activeChatId)\<close>: \<open>null\<close> and the empty string are falsy.\<close>
  "truthy None = False"
| "truthy (Some s) = (s \<noteq> [])"

definition New_Chat :: jsstring where
  "New_Chat = js ''New Chat''"

section \<open>The handlers\<close>

text \<open>
  Every handler is a closure of one render: the state variables it reads (\<open>activeChatId\<close>,
  \<open>chats\<close>, \<open>input\<close>, ...) are the constants of that render, the argument \<open>snap\<close>. The
  setters act on the current state \<open>st\<close>; \<open>setChats(prev => ...)\<close> receives the current
  \<open>chats\<close>. A handler started by a user event of the current render has \<open>snap = st\<close>.
\<close>

definition getActiveChat :: "state \<Rightarrow> chat option" where
  "getActiveChat snap = find (\<lambda>c. Some (chat_id c) = activeChatId snap) (chats snap)"

definition appendMessage :: "state \<Rightarrow> role \<Rightarrow> jsstring \<Rightarrow> state \<Rightarrow> state" where
  "appendMessage snap r c st =
     (if \<not> truthy (activeChatId snap) then st
      else st\<lparr>chats := map (\<lambda>chat.
               if Some (chat_id chat) = activeChatId snap
               then chat\<lparr>messages := messages chat @ [\<lparr>role = r, content = c\<rparr>]\<rparr>
               else chat) (chats st)\<rparr>)"

definition handleNewChat :: "jsstring \<times> nat \<Rightarrow> state \<Rightarrow> state" where
  \<comment> \<open>The pair is what \<open>uuidv4()\<close> and \<open>Date.now()\<close> return in this call.\<close>
  "handleNewChat d st =
     st\<lparr>chats := \<lparr>chat_id = fst d, title = New_Chat, messages = [], createdAt = snd d\<rparr> # chats st,
        activeChatId := Some (fst d),
        input := [],
        showFeatures := True\<rparr>"

definition generateChatTitle :: "jsstring \<Rightarrow> jsstring" where
  "generateChatTitle txt =
     (if txt = [] then New_Chat
      else let words = split_ws [] (trim txt) in
        if length words \<le> 3 then trim txt
        else let t = join_sp (take 4 words) in
          if length t > 30 then take 30 t @ js ''...'' else t)"

definition updateChatTitle :: "jsstring option \<Rightarrow> jsstring \<Rightarrow> state \<Rightarrow> state" where
  \<comment> \<open>\<open>chatId\<close> is whatever the caller passes: a string, or the \<open>activeChatId\<close> of its render.\<close>
  "updateChatTitle chatId newTitle st =
     st\<lparr>chats := map (\<lambda>chat.
            if Some (chat_id chat) = chatId then chat\<lparr>title := newTitle\<rparr> else chat) (chats st)\<rparr>"

definition handleSelectChat :: "jsstring \<Rightarrow> state \<Rightarrow> state" where
  "handleSelectChat i st = st\<lparr>activeChatId := Some i, showFeatures := False\<rparr>"

definition handleDeleteChat :: "state \<Rightarrow> jsstring \<Rightarrow> state \<Rightarrow> state" where
  \<comment> \<open>\<open>remaining[0]?.id || null\<close>: no first element, or one whose id is empty, gives \<open>null\<close>.\<close>
  "handleDeleteChat snap i st =
     (let st1 = st\<lparr>chats := filter (\<lambda>chat. chat_id chat \<noteq> i) (chats st)\<rparr> in
      if activeChatId snap = Some i then
        let remaining = filter (\<lambda>chat. chat_id chat \<noteq> i) (chats snap) in
        st1\<lparr>activeChatId :=
               (case remaining of
                  [] \<Rightarrow> None
                | c # _ \<Rightarrow> if chat_id c = [] then None else Some (chat_id c)),
            showFeatures := True\<rparr>
      else st1)"

section \<open>Sending a message and uploading a file\<close>

text \<open>
  The calls to the backend are arguments: \<open>api\<close> answers a request with the response text
  (\<open>Inr\<close>) or throws (\<open>Inl\<close>, any thrown value). \<open>textToSpeech\<close> is awaited inside its own
  \<open>try\<close> with an empty \<open>catch\<close> and its result is dropped, so it has no part in the state.
\<close>

datatype request =
    Ask jsstring
  | GenerateDocument jsstring "jsstring option"


datatype 'e completion =
    Resolved
  | Rejected 'e
  | Rescheduled

text \<open>
  How a call of an \<open>async\<close> handler ends: its promise resolves, it rejects with the error
  thrown, or the call has returned after asking \<open>setTimeout\<close> to call the handler again.
\<close>

definition error_text :: jsstring where
  \<comment> \<open>The first code unit is the cross mark U+274C.\<close>
  "error_text = 0x274C # js '' Error contacting server. Please check if the backend is running.''"


definition send_request :: "state \<Rightarrow> request" where
  \<comment> \<open>\<open>docType || null\<close>: the empty selection is sent as \<open>null\<close>.\<close>
  "send_request snap =
     (if docGenMode snap
      then GenerateDocument (input snap) (if docType snap = [] then None else Some (docType snap))
      else Ask (input snap))"

definition send_try :: "state \<Rightarrow> (request \<Rightarrow> 'e + jsstring) \<Rightarrow> state \<Rightarrow> 'e + state" where
  \<comment> \<open>The \<open>try\<close> block of \<open>handleSend\<close>; \<open>getActiveChat\<close> reads the \<open>chats\<close> of the render.\<close>
  "send_try snap api st =
     (case api (send_request snap) of
        Inl e \<Rightarrow> Inl e
      | Inr aiResponse \<Rightarrow>
          let st1 = appendMessage snap Assistant aiResponse st in
          Inr (case getActiveChat snap of
                 None \<Rightarrow> st1
               | Some activeChat \<Rightarrow>
                   if title activeChat = New_Chat
                   then updateChatTitle (activeChatId snap) (generateChatTitle (input snap)) st1
                   else st1))"

definition handleSend_call ::
  "state \<Rightarrow> jsstring \<times> nat \<Rightarrow> (request \<Rightarrow> 'e + jsstring) \<Rightarrow> state \<Rightarrow> 'e completion \<times> state" where
  \<comment> \<open>One call of \<open>handleSend\<close>. The pair \<open>d\<close> is drawn only if \<open>handleNewChat\<close> is called.\<close>
  "handleSend_call snap d api st =
     (if trim (input snap) = [] then (Resolved, st)
      else if \<not> truthy (activeChatId snap) then (Rescheduled, handleNewChat d st)
      else
        let st1 = appendMessage snap User (input snap) st;
            st2 = st1\<lparr>input := [], showFeatures := False, isLoading := True\<rparr>;
            st3 = (case send_try snap api st2 of
                     Inr s \<Rightarrow> s
                   | Inl e \<Rightarrow> appendMessage snap Assistant error_text st2)
        in (Resolved, st3\<lparr>isLoading := False\<rparr>))"

fun handleSend_timers ::
  "state \<Rightarrow> (jsstring \<times> nat) list \<Rightarrow> (request \<Rightarrow> 'e + jsstring) \<Rightarrow> 'e completion \<times> state
     \<Rightarrow> 'e completion \<times> state" where
  \<comment> \<open>\<open>setTimeout(() => handleSend(), 100)\<close>: the callback calls \<open>handleSend\<close> of the same
      render, so with the same \<open>snap\<close>. The list holds one draw for each callback that is
      observed; the run is followed for as many callbacks as the list is long.\<close>
  "handleSend_timers snap [] api r = r"
| "handleSend_timers snap (d # ds) api r =
     (if fst r = Rescheduled
      then handleSend_timers snap ds api (handleSend_call snap d api (snd r))
      else r)"

definition handleSend ::
  "state \<Rightarrow> jsstring \<times> nat \<Rightarrow> (jsstring \<times> nat) list \<Rightarrow> (request \<Rightarrow> 'e + jsstring) \<Rightarrow> state
     \<Rightarrow> 'e completion \<times> state" where
  \<comment> \<open>The call made by the user event, then the timer callbacks it leads to.\<close>
  "handleSend snap d ds api st = handleSend_timers snap ds api (handleSend_call snap d api st)"


definition reset_uploadStatus :: "state \<Rightarrow> state" where
  "reset_uploadStatus st = st\<lparr>uploadStatus := Idle\<rparr>"

section \<open>Persistence\<close>

text \<open>
  The two keys of \<open>localStorage\<close> that \<open>AskQuestionPage\<close> uses. An absent key is \<open>None\<close>.
  The text stored under \<open>chats\<close> is always produced by \<open>JSON.stringify\<close> and read back
  by \<open>JSON.parse\<close>; it is represented by the array it encodes.
\<close>

record localStorage =
  chats_item :: "chat list option"
  activeChatId_item :: "jsstring option"

definition empty_storage :: localStorage where
  "empty_storage = \<lparr>chats_item = None, activeChatId_item = None\<rparr>"

definition init :: "localStorage \<Rightarrow> state" where
  \<comment> \<open>The initial values given to \<open>useState\<close>; \<open>saved || null\<close> turns an empty string into
      \<open>null\<close>.\<close>
  "init ls =
     \<lparr>chats = (case chats_item ls of None \<Rightarrow> [] | Some saved \<Rightarrow> saved),
      activeChatId = (case activeChatId_item ls of
                        None \<Rightarrow> None
                      | Some saved \<Rightarrow> if saved = [] then None else Some saved),
      input = [],
      showFeatures = True,
      isLoading = False,
      uploadStatus = Idle,
      uploadedFileName = [],
      docGenMode = False,
      docType = []\<rparr>"

definition effect_chats :: "state \<Rightarrow> localStorage \<Rightarrow> localStorage" where
  "effect_chats st ls = ls\<lparr>chats_item := Some (chats st)\<rparr>"

definition effect_activeChatId :: "state \<Rightarrow> localStorage \<Rightarrow> localStorage" where
  "effect_activeChatId st ls =
     (if truthy (activeChatId st) then ls\<lparr>activeChatId_item := activeChatId st\<rparr> else ls)"

definition mount :: "localStorage \<Rightarrow> state \<times> localStorage" where
  \<comment> \<open>The first render: both effects run.\<close>
  "mount ls = (init ls, effect_activeChatId (init ls) (effect_chats (init ls) ls))"

definition commit :: "state \<Rightarrow> state \<Rightarrow> localStorage \<Rightarrow> localStorage" where
  \<comment> \<open>A later render: an effect runs when its dependency has changed. Every \<open>setChats\<close> of
      the source builds a new array; where the new array has the old contents, the effect
      would store again what is stored.\<close>
  "commit old new ls =
     (let ls1 = (if chats new \<noteq> chats old then effect_chats new ls else ls) in
      if activeChatId new \<noteq> activeChatId old then effect_activeChatId new ls1 else ls1)"

datatype event =
    NewChat "jsstring \<times> nat"
  | SelectChat jsstring
  | DeleteChat jsstring
  | AppendMessage role jsstring
  | UpdateChatTitle jsstring jsstring

fun handle :: "event \<Rightarrow> state \<Rightarrow> state" where
  \<comment> \<open>An operation called from the current render.\<close>
  "handle (NewChat d) st = handleNewChat d st"
| "handle (SelectChat i) st = handleSelectChat i st"
| "handle (DeleteChat i) st = handleDeleteChat st i st"
| "handle (AppendMessage r c) st = appendMessage st r c st"
| "handle (UpdateChatTitle i t) st = updateChatTitle (Some i) t st"

definition dispatch :: "event \<Rightarrow> state \<times> localStorage \<Rightarrow> state \<times> localStorage" where
  "dispatch e s = (let st = handle e (fst s) in (st, commit (fst s) st (snd s)))"

definition run :: "localStorage \<Rightarrow> event list \<Rightarrow> state \<times> localStorage" where
  "run ls es = foldl (\<lambda>s e. dispatch e s) (mount ls) es"

datatype thread_op =
    CreateThread "jsstring \<times> nat"
  | DeleteThread jsstring

fun thread_event :: "thread_op \<Rightarrow> event" where
  "thread_event (CreateThread d) = NewChat d"
| "thread_event (DeleteThread i) = DeleteChat i"

definition active_ok :: "state \<Rightarrow> bool" where
  \<comment> \<open>\<open>activeChatId\<close> is \<open>null\<close> or the id of one of the \<open>chats\<close>.\<close>
  "active_ok st =
     (case activeChatId st of None \<Rightarrow> True | Some a \<Rightarrow> a \<in> set (map chat_id (chats st)))"

section \<open>Evaluation of concrete runs\<close>

lemmas eval_defs = init_def empty_storage_def handleNewChat_def js_def trim_def isSpace_def
  New_Chat_def Let_def

section \<open>The active thread\<close>

subsection \<open>The active id names a thread\<close>

lemma active_ok_handleNewChat: "active_ok (handleNewChat d st)"
  by (simp add: active_ok_def handleNewChat_def)

lemma filter_head_in_set: "filter P xs = y # ys \<Longrightarrow> y \<in> set (filter P xs)"
  by simp

lemma active_ok_handleDeleteChat:
  assumes "active_ok st"
  shows "active_ok (handleDeleteChat st i st)"
proof (cases "activeChatId st = Some i")
  case True
  show ?thesis
  proof (cases "filter (\<lambda>chat. chat_id chat \<noteq> i) (chats st)")
    case Nil
    with True show ?thesis
      by (simp add: active_ok_def handleDeleteChat_def)
  next
    case (Cons c cs)
    have "c \<in> set (filter (\<lambda>chat. chat_id chat \<noteq> i) (chats st))"
      using Cons by (rule filter_head_in_set)
    then have "chat_id c \<in> chat_id ` set (filter (\<lambda>chat. chat_id chat \<noteq> i) (chats st))"
      by (rule imageI)
    with True Cons show ?thesis
      by (simp add: active_ok_def handleDeleteChat_def)
  qed
next
  case False
  with assms show ?thesis
    by (auto simp: active_ok_def handleDeleteChat_def split: option.splits)
qed

lemma active_ok_thread_ops:
  "active_ok (fst s) \<Longrightarrow> active_ok (fst (foldl (\<lambda>s e. dispatch e s) s (map thread_event ops)))"
proof (induction ops arbitrary: s)
  case Nil
  then show ?case by simp
next
  case (Cons op ops)
  have "active_ok (fst (dispatch (thread_event op) s))"
    using Cons.prems
    by (cases op) (simp_all add: dispatch_def Let_def active_ok_handleNewChat active_ok_handleDeleteChat)
  then show ?case using Cons.IH by simp
qed

lemma active_ok_init_empty: "active_ok (fst (mount empty_storage))"
  by (simp add: mount_def init_def empty_storage_def active_ok_def)

text \<open>
  C1: after any sequence of \<open>handleNewChat\<close> and \<open>handleDeleteChat\<close> calls, each made from the
  current render and starting from the state an empty store gives, \<open>activeChatId\<close> is
  \<open>null\<close> or the id of one of the \<open>chats\<close>.
\<close>

theorem thread_ops_active_ok:
  "active_ok (fst (run empty_storage (map thread_event ops)))"
  unfolding run_def by (rule active_ok_thread_ops [OF active_ok_init_empty])

text \<open>
  A run that creates two threads and deletes the active one: the older thread becomes active.
\<close>

theorem thread_ops_active_ok_witness:
  "activeChatId (fst (run empty_storage (map thread_event
      [CreateThread (js ''a'', 10), CreateThread (js ''b'', 20), DeleteThread (js ''b'')])))
     = Some (js ''a'')
   \<and> active_ok (fst (run empty_storage (map thread_event
      [CreateThread (js ''a'', 10), CreateThread (js ''b'', 20), DeleteThread (js ''b'')])))"
  using thread_ops_active_ok [of "[CreateThread (js ''a'', 10), CreateThread (js ''b'', 20), DeleteThread (js ''b'')]"]
  by (simp add: run_def mount_def init_def empty_storage_def dispatch_def handleNewChat_def
      handleDeleteChat_def js_def Let_def)

subsection \<open>Deleting a thread\<close>

text \<open>
  C4: \<open>handleDeleteChat\<close> keeps exactly the threads with another id, in their order. If the
  deleted thread was active, the first remaining thread becomes active (thread ids, made by
  \<open>uuidv4\<close>, are not empty), and no thread is active if none remains; otherwise the active
  id stays. Deleting the only thread while it is active leaves no thread and no active id.
\<close>

theorem handleDeleteChat_spec:
  "chats (handleDeleteChat st i st) = filter (\<lambda>c. chat_id c \<noteq> i) (chats st)
   \<and> (activeChatId st = Some i \<longrightarrow>
        (filter (\<lambda>c. chat_id c \<noteq> i) (chats st) = [] \<longrightarrow>
           activeChatId (handleDeleteChat st i st) = None)
      \<and> (\<forall>c cs. filter (\<lambda>c. chat_id c \<noteq> i) (chats st) = c # cs \<and> chat_id c \<noteq> [] \<longrightarrow>
           activeChatId (handleDeleteChat st i st) = Some (chat_id c)))
   \<and> (activeChatId st \<noteq> Some i \<longrightarrow>
        activeChatId (handleDeleteChat st i st) = activeChatId st)
   \<and> (\<forall>c. chats st = [c] \<and> chat_id c = i \<and> activeChatId st = Some i \<longrightarrow>
        chats (handleDeleteChat st i st) = [] \<and> activeChatId (handleDeleteChat st i st) = None)"
  by (auto simp: handleDeleteChat_def Let_def)

text \<open>
  Deleting the active one of two threads, and deleting the only thread.
\<close>

theorem handleDeleteChat_spec_witness:
  "chats (handleDeleteChat (handleNewChat (js ''b'', 20) (handleNewChat (js ''a'', 10) (init empty_storage)))
      (js ''b'') (handleNewChat (js ''b'', 20) (handleNewChat (js ''a'', 10) (init empty_storage))))
     = [\<lparr>chat_id = js ''a'', title = New_Chat, messages = [], createdAt = 10\<rparr>]
   \<and> activeChatId (handleDeleteChat (handleNewChat (js ''b'', 20) (handleNewChat (js ''a'', 10) (init empty_storage)))
      (js ''b'') (handleNewChat (js ''b'', 20) (handleNewChat (js ''a'', 10) (init empty_storage))))
     = Some (js ''a'')
   \<and> chats (handleDeleteChat (handleNewChat (js ''a'', 10) (init empty_storage)) (js ''a'')
        (handleNewChat (js ''a'', 10) (init empty_storage))) = []
   \<and> activeChatId (handleDeleteChat (handleNewChat (js ''a'', 10) (init empty_storage)) (js ''a'')
        (handleNewChat (js ''a'', 10) (init empty_storage))) = None"
proof -
  let ?s1 = "handleNewChat (js ''a'', 10) (init empty_storage)"
  let ?s2 = "handleNewChat (js ''b'', 20) ?s1"
  let ?a = "\<lparr>chat_id = js ''a'', title = New_Chat, messages = [], createdAt = 10\<rparr>"
  have h2: "activeChatId ?s2 = Some (js ''b'')"
    "filter (\<lambda>c. chat_id c \<noteq> js ''b'') (chats ?s2) = ?a # []" "chat_id ?a \<noteq> []"
    by (simp_all add: eval_defs)
  have h1: "chats ?s1 = [?a]" "chat_id ?a = js ''a''" "activeChatId ?s1 = Some (js ''a'')"
    by (simp_all add: eval_defs)
  have "chats (handleDeleteChat ?s2 (js ''b'') ?s2) = [?a]"
    using handleDeleteChat_spec [of ?s2 "js ''b''"] h2 by simp
  moreover have "activeChatId (handleDeleteChat ?s2 (js ''b'') ?s2) = Some (chat_id ?a)"
    using handleDeleteChat_spec [of ?s2 "js ''b''"] h2 by blast
  moreover have "chats (handleDeleteChat ?s1 (js ''a'') ?s1) = []
      \<and> activeChatId (handleDeleteChat ?s1 (js ''a'') ?s1) = None"
    using handleDeleteChat_spec [of ?s1 "js ''a''"] h1 by blast
  ultimately show ?thesis by simp
qed

subsection \<open>Selecting a thread\<close>

text \<open>
  C7: as the source has it, \<open>handleSelectChat\<close> makes the given id the active id
  whether or not a thread has that id, and leaves the threads as they are.
\<close>

theorem handleSelectChat_spec:
  "activeChatId (handleSelectChat i st) = Some i \<and> chats (handleSelectChat i st) = chats st"
  by (simp add: handleSelectChat_def)

text \<open>
  With no thread at all, selecting the id \<open>x\<close> is not a no-op: \<open>x\<close> becomes the active id.
\<close>

theorem handleSelectChat_counterexample:
  "chats (init empty_storage) = []
   \<and> activeChatId (init empty_storage) = None
   \<and> activeChatId (handleSelectChat (js ''x'') (init empty_storage)) = Some (js ''x'')
   \<and> handleSelectChat (js ''x'') (init empty_storage) \<noteq> init empty_storage"
  by (simp add: handleSelectChat_def init_def empty_storage_def js_def)

section \<open>Appending a message\<close>

lemma find_map_if:
  assumes "\<And>c. P (g c) = P c"
  shows "find P (map (\<lambda>c. if P c then g c else c) xs) = map_option g (find P xs)"
  by (induction xs) (simp_all add: assms)

lemma map_if_id_notin:
  "a \<notin> chat_id ` set xs \<Longrightarrow> map (\<lambda>c. if chat_id c = a then g c else c) xs = xs"
  by (induction xs) auto

lemma map_if_id_split:
  assumes "distinct (map chat_id xs)" "a \<in> chat_id ` set xs"
  shows "\<exists>pre t post. xs = pre @ t # post \<and> chat_id t = a
           \<and> map (\<lambda>c. if chat_id c = a then g c else c) xs = pre @ g t # post"
proof -
  from assms(2) obtain t where t: "t \<in> set xs" "chat_id t = a" by auto
  then obtain pre post where xs: "xs = pre @ t # post"
    by (auto simp: in_set_conv_decomp)
  from assms(1) xs t(2) have "a \<notin> chat_id ` set pre" "a \<notin> chat_id ` set post"
    by auto
  then have "map (\<lambda>c. if chat_id c = a then g c else c) pre = pre"
    "map (\<lambda>c. if chat_id c = a then g c else c) post = post"
    by (simp_all add: map_if_id_notin)
  with xs t(2) show ?thesis by auto
qed

lemma appendMessage_truthy:
  "activeChatId snap = Some a \<Longrightarrow> a \<noteq> [] \<Longrightarrow>
     appendMessage snap r c st
       = st\<lparr>chats := map (\<lambda>chat. if chat_id chat = a
                 then chat\<lparr>messages := messages chat @ [\<lparr>role = r, content = c\<rparr>]\<rparr>
                 else chat) (chats st)\<rparr>"
  by (simp add: appendMessage_def)

text \<open>
  C5: \<open>appendMessage\<close> reads the \<open>activeChatId\<close> of the render that calls it (\<open>snap\<close>) and
  acts on the current state \<open>st\<close>, whichever the two are. With no active id (\<open>null\<close>, or
  falsy at all) it leaves the state as it is. Otherwise it appends the one message to the
  end of the message list of every thread with the active id and changes nothing else: the
  first thread with that id is the old one with the message added; where the ids are
  distinct and a thread has the active id, exactly that thread gets exactly that message;
  where no thread has the active id, the state is left as it is and the message is stored
  nowhere.
\<close>

theorem appendMessage_spec:
  "(activeChatId snap = None \<longrightarrow> appendMessage snap r c st = st)
   \<and> (\<not> truthy (activeChatId snap) \<longrightarrow> appendMessage snap r c st = st)
   \<and> (\<forall>a. activeChatId snap = Some a \<and> a \<noteq> [] \<longrightarrow>
        appendMessage snap r c st
          = st\<lparr>chats := map (\<lambda>chat. if chat_id chat = a
                    then chat\<lparr>messages := messages chat @ [\<lparr>role = r, content = c\<rparr>]\<rparr>
                    else chat) (chats st)\<rparr>
        \<and> find (\<lambda>chat. chat_id chat = a) (chats (appendMessage snap r c st))
            = map_option (\<lambda>chat. chat\<lparr>messages := messages chat @ [\<lparr>role = r, content = c\<rparr>]\<rparr>)
                (find (\<lambda>chat. chat_id chat = a) (chats st))
        \<and> (activeChatId st = Some a \<longrightarrow>
             getActiveChat (appendMessage snap r c st)
               = map_option (\<lambda>chat. chat\<lparr>messages := messages chat @ [\<lparr>role = r, content = c\<rparr>]\<rparr>)
                   (getActiveChat st))
        \<and> (a \<in> chat_id ` set (chats st) \<and> distinct (map chat_id (chats st)) \<longrightarrow>
             (\<exists>pre t post. chats st = pre @ t # post \<and> chat_id t = a
                \<and> chats (appendMessage snap r c st)
                    = pre @ t\<lparr>messages := messages t @ [\<lparr>role = r, content = c\<rparr>]\<rparr> # post))
        \<and> (a \<notin> chat_id ` set (chats st) \<longrightarrow> appendMessage snap r c st = st))"
proof -
  let ?g = "\<lambda>chat. chat\<lparr>messages := messages chat @ [\<lparr>role = r, content = c\<rparr>]\<rparr>"
  have none: "appendMessage snap r c st = st" if "\<not> truthy (activeChatId snap)"
    using that by (simp add: appendMessage_def)
  {
    fix a assume a: "activeChatId snap = Some a" "a \<noteq> []"
    let ?st' = "appendMessage snap r c st"
    have eq: "?st' = st\<lparr>chats := map (\<lambda>chat. if chat_id chat = a then ?g chat else chat) (chats st)\<rparr>"
      using a by (rule appendMessage_truthy)
    have ch: "chats ?st' = map (\<lambda>chat. if chat_id chat = a then ?g chat else chat) (chats st)"
      by (simp add: eq)
    have fnd: "find (\<lambda>chat. chat_id chat = a) (chats ?st')
        = map_option ?g (find (\<lambda>chat. chat_id chat = a) (chats st))"
      unfolding ch by (rule find_map_if) simp
    have act: "getActiveChat ?st' = map_option ?g (getActiveChat st)" if "activeChatId st = Some a"
      using that fnd by (simp add: getActiveChat_def eq)
    have split: "\<exists>pre t post. chats st = pre @ t # post \<and> chat_id t = a
          \<and> chats ?st' = pre @ ?g t # post"
      if "a \<in> chat_id ` set (chats st)" "distinct (map chat_id (chats st))"
      unfolding ch using that(2,1) by (rule map_if_id_split)
    have notin: "?st' = st" if "a \<notin> chat_id ` set (chats st)"
      using that by (simp add: eq map_if_id_notin)
    note eq fnd act split notin
  }
  then show ?thesis
    using none by (intro conjI allI impI; (elim conjE)?; simp)
qed

text \<open>
  Appending with no active id; appending to a new thread from the current render; and
  appending from the render of thread \<open>a\<close> after a thread \<open>b\<close> has been created.
\<close>

theorem appendMessage_spec_witness:
  "appendMessage (init empty_storage) User (js ''Q'') (init empty_storage) = init empty_storage
   \<and> chats (appendMessage (handleNewChat (js ''a'', 10) (init empty_storage)) User (js ''Q'')
        (handleNewChat (js ''a'', 10) (init empty_storage)))
      = [\<lparr>chat_id = js ''a'', title = New_Chat,
          messages = [\<lparr>role = User, content = js ''Q''\<rparr>], createdAt = 10\<rparr>]
   \<and> chats (appendMessage (handleNewChat (js ''a'', 10) (init empty_storage)) Assistant (js ''A'')
        (handleNewChat (js ''b'', 20) (handleNewChat (js ''a'', 10) (init empty_storage))))
      = [\<lparr>chat_id = js ''b'', title = New_Chat, messages = [], createdAt = 20\<rparr>,
         \<lparr>chat_id = js ''a'', title = New_Chat,
          messages = [\<lparr>role = Assistant, content = js ''A''\<rparr>], createdAt = 10\<rparr>]"
proof -
  let ?s1 = "handleNewChat (js ''a'', 10) (init empty_storage)"
  let ?s2 = "handleNewChat (js ''b'', 20) ?s1"
  have h0: "activeChatId (init empty_storage) = None"
    by (simp add: eval_defs)
  have h1: "activeChatId ?s1 = Some (js ''a'') \<and> js ''a'' \<noteq> []"
    by (simp add: eval_defs)
  have "appendMessage (init empty_storage) User (js ''Q'') (init empty_storage) = init empty_storage"
    using appendMessage_spec [of "init empty_storage" User "js ''Q''" "init empty_storage"] h0
    by blast
  moreover have "appendMessage ?s1 User (js ''Q'') ?s1
      = ?s1\<lparr>chats := map (\<lambda>chat. if chat_id chat = js ''a''
                     then chat\<lparr>messages := messages chat @ [\<lparr>role = User, content = js ''Q''\<rparr>]\<rparr>
                     else chat) (chats ?s1)\<rparr>"
    using appendMessage_spec [of ?s1 User "js ''Q''" ?s1] h1 by blast
  moreover have "appendMessage ?s1 Assistant (js ''A'') ?s2
      = ?s2\<lparr>chats := map (\<lambda>chat. if chat_id chat = js ''a''
                     then chat\<lparr>messages := messages chat @ [\<lparr>role = Assistant, content = js ''A''\<rparr>]\<rparr>
                     else chat) (chats ?s2)\<rparr>"
    using appendMessage_spec [of ?s1 Assistant "js ''A''" ?s2] h1 by blast
  ultimately show ?thesis by (simp add: eval_defs)
qed

text \<open>
  After a chat is created and deleted and the page is loaded again, the active id is that of
  the deleted thread, so it is not \<open>null\<close>, and there is no thread: \<open>appendMessage\<close> leaves
  the state as it is.
\<close>

theorem appendMessage_counterexample:
  "activeChatId (init (snd (run empty_storage [NewChat (js ''a'', 10), DeleteChat (js ''a'')])))
     = Some (js ''a'')
   \<and> chats (init (snd (run empty_storage [NewChat (js ''a'', 10), DeleteChat (js ''a'')]))) = []
   \<and> appendMessage
        (init (snd (run empty_storage [NewChat (js ''a'', 10), DeleteChat (js ''a'')])))
        User (js ''Q'')
        (init (snd (run empty_storage [NewChat (js ''a'', 10), DeleteChat (js ''a'')])))
      = init (snd (run empty_storage [NewChat (js ''a'', 10), DeleteChat (js ''a'')]))"
  by (simp add: run_def mount_def init_def empty_storage_def dispatch_def handleNewChat_def
      handleDeleteChat_def commit_def effect_chats_def effect_activeChatId_def appendMessage_def
      js_def Let_def)

text \<open>
  C10: whatever the render \<open>appendMessage\<close> is called from and whatever the current state,
  \<open>activeChatId\<close> and every state variable other than \<open>chats\<close> stay as they are; the
  threads keep their number and order; each thread keeps its id, title and creation time,
  so it differs from the old one in its messages at most; and a thread with another id than
  the active id that the call reads is not changed at all. Where that id is the current
  \<open>activeChatId\<close>, as in a call from the current render, every thread other than the active
  thread is unchanged.
\<close>

theorem appendMessage_frame:
  "activeChatId (appendMessage snap r c st) = activeChatId st
   \<and> (appendMessage snap r c st)\<lparr>chats := chats st\<rparr> = st
   \<and> list_all2 (\<lambda>c0 c1.
        chat_id c1 = chat_id c0 \<and> title c1 = title c0 \<and> createdAt c1 = createdAt c0
        \<and> c1 = c0\<lparr>messages := messages c1\<rparr>
        \<and> (Some (chat_id c0) \<noteq> activeChatId snap \<longrightarrow> c1 = c0))
      (chats st) (chats (appendMessage snap r c st))
   \<and> (activeChatId snap = activeChatId st \<longrightarrow>
        list_all2 (\<lambda>c0 c1. Some (chat_id c0) \<noteq> activeChatId st \<longrightarrow> c1 = c0)
          (chats st) (chats (appendMessage snap r c st)))"
  by (simp add: appendMessage_def list_all2_map2 list_all2_same)

text \<open>
  Called from the render of thread \<open>a\<close> after a thread \<open>b\<close> has been created and made active:
  only the message list of \<open>a\<close> grows, and \<open>b\<close> stays active. Called from the current render,
  where \<open>b\<close> is active: only the message list of \<open>b\<close> grows.
\<close>

theorem appendMessage_frame_witness:
  "appendMessage (handleNewChat (js ''a'', 10) (init empty_storage)) User (js ''Q'')
       (handleNewChat (js ''b'', 20) (handleNewChat (js ''a'', 10) (init empty_storage)))
     = (handleNewChat (js ''b'', 20) (handleNewChat (js ''a'', 10) (init empty_storage)))
         \<lparr>chats := [\<lparr>chat_id = js ''b'', title = New_Chat, messages = [], createdAt = 20\<rparr>,
                    \<lparr>chat_id = js ''a'', title = New_Chat,
                     messages = [\<lparr>role = User, content = js ''Q''\<rparr>], createdAt = 10\<rparr>]\<rparr>
   \<and> activeChatId (appendMessage (handleNewChat (js ''a'', 10) (init empty_storage)) User (js ''Q'')
       (handleNewChat (js ''b'', 20) (handleNewChat (js ''a'', 10) (init empty_storage))))
     = Some (js ''b'')
   \<and> list_all2 (\<lambda>c0 c1. Some (chat_id c0) \<noteq> Some (js ''b'') \<longrightarrow> c1 = c0)
        (chats (handleNewChat (js ''b'', 20) (handleNewChat (js ''a'', 10) (init empty_storage))))
        (chats (appendMessage
           (handleNewChat (js ''b'', 20) (handleNewChat (js ''a'', 10) (init empty_storage)))
           User (js ''Q'')
           (handleNewChat (js ''b'', 20) (handleNewChat (js ''a'', 10) (init empty_storage)))))
   \<and> chats (appendMessage
           (handleNewChat (js ''b'', 20) (handleNewChat (js ''a'', 10) (init empty_storage)))
           User (js ''Q'')
           (handleNewChat (js ''b'', 20) (handleNewChat (js ''a'', 10) (init empty_storage))))
       = [\<lparr>chat_id = js ''b'', title = New_Chat,
           messages = [\<lparr>role = User, content = js ''Q''\<rparr>], createdAt = 20\<rparr>,
          \<lparr>chat_id = js ''a'', title = New_Chat, messages = [], createdAt = 10\<rparr>]"
proof -
  let ?s1 = "handleNewChat (js ''a'', 10) (init empty_storage)"
  let ?s2 = "handleNewChat (js ''b'', 20) ?s1"
  have c: "chats (appendMessage ?s1 User (js ''Q'') ?s2)
      = [\<lparr>chat_id = js ''b'', title = New_Chat, messages = [], createdAt = 20\<rparr>,
         \<lparr>chat_id = js ''a'', title = New_Chat,
          messages = [\<lparr>role = User, content = js ''Q''\<rparr>], createdAt = 10\<rparr>]"
    by (simp add: appendMessage_def eval_defs)
  have f: "(appendMessage ?s1 User (js ''Q'') ?s2)\<lparr>chats := chats ?s2\<rparr> = ?s2"
    and a: "activeChatId (appendMessage ?s1 User (js ''Q'') ?s2) = activeChatId ?s2"
    using appendMessage_frame [of ?s1 User "js ''Q''" ?s2] by blast+
  have "appendMessage ?s1 User (js ''Q'') ?s2
      = ((appendMessage ?s1 User (js ''Q'') ?s2)\<lparr>chats := chats ?s2\<rparr>)
          \<lparr>chats := chats (appendMessage ?s1 User (js ''Q'') ?s2)\<rparr>"
    by simp
  also have "\<dots> = ?s2\<lparr>chats := chats (appendMessage ?s1 User (js ''Q'') ?s2)\<rparr>"
    by (simp only: f)
  finally have "appendMessage ?s1 User (js ''Q'') ?s2
      = ?s2\<lparr>chats := chats (appendMessage ?s1 User (js ''Q'') ?s2)\<rparr>" .
  moreover have b: "activeChatId ?s2 = Some (js ''b'')"
    by (simp add: eval_defs)
  moreover have "list_all2 (\<lambda>c0 c1. Some (chat_id c0) \<noteq> activeChatId ?s2 \<longrightarrow> c1 = c0)
      (chats ?s2) (chats (appendMessage ?s2 User (js ''Q'') ?s2))"
    using appendMessage_frame [of ?s2 User "js ''Q''" ?s2] by blast
  then have "list_all2 (\<lambda>c0 c1. Some (chat_id c0) \<noteq> Some (js ''b'') \<longrightarrow> c1 = c0)
      (chats ?s2) (chats (appendMessage ?s2 User (js ''Q'') ?s2))"
    by (simp only: b)
  moreover have "chats (appendMessage ?s2 User (js ''Q'') ?s2)
       = [\<lparr>chat_id = js ''b'', title = New_Chat,
           messages = [\<lparr>role = User, content = js ''Q''\<rparr>], createdAt = 20\<rparr>,
          \<lparr>chat_id = js ''a'', title = New_Chat, messages = [], createdAt = 10\<rparr>]"
    by (simp add: appendMessage_def eval_defs)
  ultimately show ?thesis
    using a c by simp
qed

section \<open>Thread titles\<close>

lemma trim_id:
  assumes "txt \<noteq> []" "\<not> isSpace (hd txt)" "\<not> isSpace (last txt)"
  shows "trim txt = txt"
proof -
  have "dropWhile isSpace txt = txt"
    using assms(1,2) by (cases "txt") simp_all
  moreover have "dropWhile isSpace (rev txt) = rev txt"
    using assms(1,3) by (cases "rev txt") (simp_all add: hd_rev [symmetric])
  ultimately show ?thesis by (simp add: trim_def)
qed

lemma split_ws_trim_Nil: "split_ws [] (trim []) = [[]]"
  by (simp add: trim_def)

text \<open>
  C6: as the source has it, \<open>generateChatTitle\<close> gives \<open>New Chat\<close> for the empty text; for
  a text that is not empty and has at most 3 words, it gives the text without the white
  space at its two ends, which is the text itself when it neither begins nor ends with
  white space; for a text of more than 3 words it gives the first 4 words joined by single
  spaces, cut to 30 code units and followed by three dots when the join is longer than 30,
  so at most 33 code units in all. The words of a text are the pieces of
  \<open>text.trim().split(/\s+/)\<close>. The title of \<open>Hello\<close> is \<open>Hello\<close>.
\<close>

theorem generateChatTitle_spec:
  "generateChatTitle [] = New_Chat
   \<and> (txt \<noteq> [] \<and> length (split_ws [] (trim txt)) \<le> 3 \<longrightarrow> generateChatTitle txt = trim txt)
   \<and> (txt \<noteq> [] \<and> \<not> isSpace (hd txt) \<and> \<not> isSpace (last txt)
        \<and> length (split_ws [] (trim txt)) \<le> 3 \<longrightarrow> generateChatTitle txt = txt)
   \<and> (3 < length (split_ws [] (trim txt)) \<longrightarrow>
        generateChatTitle txt
          = (let t = join_sp (take 4 (split_ws [] (trim txt)))
             in if 30 < length t then take 30 t @ js ''...'' else t)
        \<and> length (generateChatTitle txt) \<le> 33)
   \<and> generateChatTitle (js ''Hello'') = js ''Hello''"
proof -
  have a: "generateChatTitle [] = New_Chat"
    by (simp add: generateChatTitle_def)
  have b: "generateChatTitle txt = trim txt"
    if "txt \<noteq> []" "length (split_ws [] (trim txt)) \<le> 3"
    using that by (simp add: generateChatTitle_def)
  have c: "generateChatTitle txt = txt"
    if "txt \<noteq> []" "\<not> isSpace (hd txt)" "\<not> isSpace (last txt)"
       "length (split_ws [] (trim txt)) \<le> 3"
    using that b trim_id by simp
  have ne: "txt \<noteq> []" if "3 < length (split_ws [] (trim txt))"
    using that split_ws_trim_Nil by auto
  have d: "generateChatTitle txt
          = (let t = join_sp (take 4 (split_ws [] (trim txt)))
             in if 30 < length t then take 30 t @ js ''...'' else t)"
    if "3 < length (split_ws [] (trim txt))"
    using that ne by (simp add: generateChatTitle_def Let_def)
  have e: "length (generateChatTitle txt) \<le> 33"
    if "3 < length (split_ws [] (trim txt))"
    using that by (simp add: d Let_def js_def)
  have f: "generateChatTitle (js ''Hello'') = js ''Hello''"
    by (simp add: generateChatTitle_def js_def trim_def isSpace_def)
  from a b c d e f show ?thesis by blast
qed

text \<open>
  Texts of three words, with and without white space at the ends, and texts of more than
  three words, with a short and with a long join.
\<close>

theorem generateChatTitle_spec_witness:
  "generateChatTitle (js '' what is bail '') = js ''what is bail''
   \<and> generateChatTitle (js ''one two three'') = js ''one two three''
   \<and> generateChatTitle (js ''one two three four five six'') = js ''one two three four''
   \<and> generateChatTitle (js ''Anticipatory bail application procedure'')
       = js ''Anticipatory bail application '' @ js ''...''"
proof -
  have h1: "js '' what is bail '' \<noteq> [] \<and> length (split_ws [] (trim (js '' what is bail ''))) \<le> 3"
    by (simp add: js_def trim_def isSpace_def)
  have "generateChatTitle (js '' what is bail '') = trim (js '' what is bail '')"
    using generateChatTitle_spec [of "js '' what is bail ''"] h1 by blast
  then have w1: "generateChatTitle (js '' what is bail '') = js ''what is bail''"
    by (simp add: js_def trim_def isSpace_def)
  have h2: "js ''one two three'' \<noteq> [] \<and> \<not> isSpace (hd (js ''one two three''))
      \<and> \<not> isSpace (last (js ''one two three''))
      \<and> length (split_ws [] (trim (js ''one two three''))) \<le> 3"
    by (simp add: js_def trim_def isSpace_def)
  have w2: "generateChatTitle (js ''one two three'') = js ''one two three''"
    using generateChatTitle_spec [of "js ''one two three''"] h2 by blast
  have h3: "3 < length (split_ws [] (trim (js ''one two three four five six'')))"
    by (simp add: js_def trim_def isSpace_def)
  have "generateChatTitle (js ''one two three four five six'')
          = (let t = join_sp (take 4 (split_ws [] (trim (js ''one two three four five six''))))
             in if 30 < length t then take 30 t @ js ''...'' else t)"
    using generateChatTitle_spec [of "js ''one two three four five six''"] h3 by blast
  then have w3: "generateChatTitle (js ''one two three four five six'') = js ''one two three four''"
    by (simp add: js_def trim_def isSpace_def)
  have h4: "3 < length (split_ws [] (trim (js ''Anticipatory bail application procedure'')))"
    by (simp add: js_def trim_def isSpace_def)
  have "generateChatTitle (js ''Anticipatory bail application procedure'')
          = (let t = join_sp (take 4 (split_ws [] (trim (js ''Anticipatory bail application procedure''))))
             in if 30 < length t then take 30 t @ js ''...'' else t)"
    using generateChatTitle_spec [of "js ''Anticipatory bail application procedure''"] h4 by blast
  then have w4: "generateChatTitle (js ''Anticipatory bail application procedure'')
       = js ''Anticipatory bail application '' @ js ''...''"
    by (simp add: js_def trim_def isSpace_def)
  from w1 w2 w3 w4 show ?thesis by blast
qed

text \<open>
  A text of one word with a space in front is not returned unchanged, and neither is the
  empty text.
\<close>

theorem generateChatTitle_counterexample:
  "length (split_ws [] (trim (js '' Hello''))) \<le> 3
   \<and> generateChatTitle (js '' Hello'') = js ''Hello''
   \<and> generateChatTitle (js '' Hello'') \<noteq> js '' Hello''
   \<and> length (split_ws [] (trim [])) \<le> 3
   \<and> generateChatTitle [] = js ''New Chat''
   \<and> generateChatTitle [] \<noteq> []"
  by (simp add: generateChatTitle_def js_def trim_def isSpace_def New_Chat_def)

section \<open>What the store holds\<close>

lemma effect_activeChatId_chats_item [simp]:
  "chats_item (effect_activeChatId st ls) = chats_item ls"
  by (simp add: effect_activeChatId_def)

lemma effect_chats_activeChatId_item [simp]:
  "activeChatId_item (effect_chats st ls) = activeChatId_item ls"
  by (simp add: effect_chats_def)

lemma chats_item_mount: "chats_item (snd (mount ls)) = Some (chats (fst (mount ls)))"
  by (simp add: mount_def effect_chats_def)

lemma activeChatId_item_mount:
  "truthy (activeChatId (fst (mount ls))) \<Longrightarrow>
     activeChatId_item (snd (mount ls)) = activeChatId (fst (mount ls))"
  by (simp add: mount_def effect_activeChatId_def)

lemma chats_item_commit:
  "chats_item ls = Some (chats old) \<Longrightarrow> chats_item (commit old new ls) = Some (chats new)"
  by (simp add: commit_def Let_def effect_chats_def)

lemma activeChatId_item_commit:
  "(truthy (activeChatId old) \<longrightarrow> activeChatId_item ls = activeChatId old) \<Longrightarrow>
   truthy (activeChatId new) \<Longrightarrow>
   activeChatId_item (commit old new ls) = activeChatId new"
  by (auto simp: commit_def Let_def effect_activeChatId_def)

lemma activeChatId_item_commit_falsy:
  "\<not> truthy (activeChatId new) \<Longrightarrow>
   activeChatId_item (commit old new ls) = activeChatId_item ls"
  by (simp add: commit_def Let_def effect_activeChatId_def)

lemma run_snoc: "run ls (es @ [e]) = dispatch e (run ls es)"
  by (simp add: run_def)

lemma run_synced:
  "chats_item (snd (run ls es)) = Some (chats (fst (run ls es)))
   \<and> (truthy (activeChatId (fst (run ls es))) \<longrightarrow>
        activeChatId_item (snd (run ls es)) = activeChatId (fst (run ls es)))"
proof (induction es rule: rev_induct)
  case Nil
  show ?case
    using chats_item_mount [of ls] activeChatId_item_mount [of ls] by (simp add: run_def)
next
  case (snoc e es)
  then show ?case
    by (simp add: run_snoc dispatch_def Let_def chats_item_commit activeChatId_item_commit)
qed

text \<open>
  C2: as the source has it, after every sequence of operations (new chat, select, delete,
  append, rename) on a component mounted on any store, the store holds the current threads
  under \<open>chats\<close>, and holds the current active id under \<open>activeChatId\<close> whenever that id is
  not \<open>null\<close> (or empty). An operation that leaves no thread active does not write the
  key \<open>activeChatId\<close>: it keeps the value it had. A store without the two keys gives no
  threads and no active thread at the start.
\<close>

theorem persistence_spec:
  "chats_item (snd (run ls es)) = Some (chats (fst (run ls es)))
   \<and> (truthy (activeChatId (fst (run ls es))) \<longrightarrow>
        activeChatId_item (snd (run ls es)) = activeChatId (fst (run ls es)))
   \<and> (\<not> truthy (activeChatId (fst (run ls (es @ [e])))) \<longrightarrow>
        activeChatId_item (snd (run ls (es @ [e]))) = activeChatId_item (snd (run ls es)))
   \<and> (chats_item ls = None \<longrightarrow> chats (init ls) = [])
   \<and> (activeChatId_item ls = None \<longrightarrow> activeChatId (init ls) = None)"
proof -
  have "activeChatId_item (snd (run ls (es @ [e]))) = activeChatId_item (snd (run ls es))"
    if "\<not> truthy (activeChatId (fst (run ls (es @ [e]))))"
    using that by (simp add: run_snoc dispatch_def Let_def activeChatId_item_commit_falsy)
  then show ?thesis
    using run_synced [of ls es] by (simp add: init_def)
qed

text \<open>
  Two new chats are both stored; deleting the only chat leaves the key \<open>activeChatId\<close>
  as it was.
\<close>

theorem persistence_spec_witness:
  "activeChatId (fst (run empty_storage [NewChat (js ''a'', 10), NewChat (js ''b'', 20)]))
     = Some (js ''b'')
   \<and> activeChatId_item (snd (run empty_storage [NewChat (js ''a'', 10), NewChat (js ''b'', 20)]))
     = Some (js ''b'')
   \<and> chats_item (snd (run empty_storage [NewChat (js ''a'', 10), NewChat (js ''b'', 20)]))
     = Some (chats (fst (run empty_storage [NewChat (js ''a'', 10), NewChat (js ''b'', 20)])))
   \<and> activeChatId (fst (run empty_storage [NewChat (js ''a'', 10), DeleteChat (js ''a'')])) = None
   \<and> activeChatId_item (snd (run empty_storage ([NewChat (js ''a'', 10)] @ [DeleteChat (js ''a'')])))
     = activeChatId_item (snd (run empty_storage [NewChat (js ''a'', 10)]))
   \<and> chats (init empty_storage) = [] \<and> activeChatId (init empty_storage) = None"
proof -
  have t: "truthy (activeChatId (fst (run empty_storage [NewChat (js ''a'', 10), NewChat (js ''b'', 20)])))"
    and a: "activeChatId (fst (run empty_storage [NewChat (js ''a'', 10), NewChat (js ''b'', 20)]))
     = Some (js ''b'')"
    by (simp_all add: run_def mount_def init_def empty_storage_def dispatch_def handleNewChat_def
        js_def Let_def)
  have f: "\<not> truthy (activeChatId (fst (run empty_storage ([NewChat (js ''a'', 10)] @ [DeleteChat (js ''a'')]))))"
    and n: "activeChatId (fst (run empty_storage [NewChat (js ''a'', 10), DeleteChat (js ''a'')])) = None"
    by (simp_all add: run_def mount_def init_def empty_storage_def dispatch_def handleNewChat_def
        handleDeleteChat_def js_def Let_def)
  have e: "chats_item empty_storage = None \<and> activeChatId_item empty_storage = None"
    by (simp add: empty_storage_def)
  show ?thesis
    using persistence_spec [of empty_storage "[NewChat (js ''a'', 10), NewChat (js ''b'', 20)]"]
      persistence_spec [of empty_storage "[NewChat (js ''a'', 10)]" "DeleteChat (js ''a'')"]
      t a f n e
    by simp
qed

text \<open>
  After a chat is created and deleted, no thread is active, but the store still holds the
  id of the deleted thread, and a restart from this store makes it the active id again.
\<close>

theorem persistence_counterexample:
  "activeChatId (fst (run empty_storage [NewChat (js ''a'', 10), DeleteChat (js ''a'')])) = None
   \<and> activeChatId_item (snd (run empty_storage [NewChat (js ''a'', 10), DeleteChat (js ''a'')]))
       = Some (js ''a'')
   \<and> chats (init (snd (run empty_storage [NewChat (js ''a'', 10), DeleteChat (js ''a'')]))) = []
   \<and> activeChatId (init (snd (run empty_storage [NewChat (js ''a'', 10), DeleteChat (js ''a'')])))
       = Some (js ''a'')"
  by (simp add: run_def mount_def init_def empty_storage_def dispatch_def handleNewChat_def
      handleDeleteChat_def commit_def effect_chats_def effect_activeChatId_def js_def Let_def)

section \<open>Sending a message\<close>

lemma handleSend_timers_Resolved:
  "handleSend_timers snap ds api (Resolved, s) = (Resolved, s)"
  by (cases ds) simp_all

lemma handleSend_timers_no_active:
  assumes "trim (input snap) \<noteq> []" "\<not> truthy (activeChatId snap)"
  shows "handleSend_timers snap ds api (Rescheduled, s)
           = (Rescheduled, foldl (\<lambda>s d. handleNewChat d s) s ds)"
  using assms by (induction ds arbitrary: s) (simp_all add: handleSend_call_def)

lemma handleSend_no_active:
  assumes "trim (input snap) \<noteq> []" "\<not> truthy (activeChatId snap)"
  shows "handleSend snap d ds api st = (Rescheduled, foldl (\<lambda>s d. handleNewChat d s) st (d # ds))"
  using assms by (simp add: handleSend_def handleSend_call_def handleSend_timers_no_active)

lemma length_chats_new_chats:
  "length (chats (foldl (\<lambda>s d. handleNewChat d s) st ds)) = length (chats st) + length ds"
  by (induction ds arbitrary: st) (simp_all add: handleNewChat_def)

lemma messages_new_chats:
  "concat (map messages (chats (foldl (\<lambda>s d. handleNewChat d s) st ds)))
     = concat (map messages (chats st))"
  by (induction ds arbitrary: st) (simp_all add: handleNewChat_def)

text \<open>
  C3: \<open>handleSend\<close> called with a text that is not blank from a render with no active
  thread: the call creates a thread and asks for a second call of the same closure, whose
  \<open>activeChatId\<close> is still \<open>null\<close>. However many of the timer callbacks are followed, the
  handler is waiting for the next one, every call has created one more thread, no message
  has been appended to any thread, and the result does not depend on the backend, which is
  never called.
\<close>

theorem handleSend_no_active_chat:
  "trim (input st) \<noteq> [] \<Longrightarrow> \<not> truthy (activeChatId st) \<Longrightarrow>
     handleSend st d ds api st = (Rescheduled, foldl (\<lambda>s d. handleNewChat d s) st (d # ds))
     \<and> fst (handleSend st d ds api st) = Rescheduled
     \<and> length (chats (snd (handleSend st d ds api st))) = length (chats st) + 1 + length ds
     \<and> concat (map messages (chats (snd (handleSend st d ds api st))))
         = concat (map messages (chats st))"
  using length_chats_new_chats [of st "d # ds"] messages_new_chats [of st "d # ds"]
  by (simp add: handleSend_no_active del: foldl_Cons)

text \<open>
  The text \<open>hi\<close> sent from the empty state, followed for two timer callbacks: three
  threads, all without messages.
\<close>

theorem handleSend_no_active_chat_witness:
  "trim (input ((init empty_storage)\<lparr>input := js ''hi''\<rparr>)) \<noteq> []
   \<and> activeChatId ((init empty_storage)\<lparr>input := js ''hi''\<rparr>) = None
   \<and> handleSend ((init empty_storage)\<lparr>input := js ''hi''\<rparr>) (js ''a'', 10)
        [(js ''b'', 20), (js ''c'', 30)] (\<lambda>q. Inr (js ''ok'') :: unit + jsstring)
        ((init empty_storage)\<lparr>input := js ''hi''\<rparr>)
      = (Rescheduled,
         (init empty_storage)
           \<lparr>chats := [\<lparr>chat_id = js ''c'', title = New_Chat, messages = [], createdAt = 30\<rparr>,
                      \<lparr>chat_id = js ''b'', title = New_Chat, messages = [], createdAt = 20\<rparr>,
                      \<lparr>chat_id = js ''a'', title = New_Chat, messages = [], createdAt = 10\<rparr>],
            activeChatId := Some (js ''c'')\<rparr>)"
proof -
  let ?st = "(init empty_storage)\<lparr>input := js ''hi''\<rparr>"
  let ?api = "\<lambda>q. Inr (js ''ok'') :: unit + jsstring"
  have h: "trim (input ?st) \<noteq> []" "\<not> truthy (activeChatId ?st)" "activeChatId ?st = None"
    by (simp_all add: eval_defs)
  have r: "fst (handleSend ?st (js ''a'', 10) [(js ''b'', 20), (js ''c'', 30)] ?api ?st) = Rescheduled"
    using handleSend_no_active_chat [OF h(1,2)] by blast
  have s: "snd (handleSend ?st (js ''a'', 10) [(js ''b'', 20), (js ''c'', 30)] ?api ?st)
      = (init empty_storage)
           \<lparr>chats := [\<lparr>chat_id = js ''c'', title = New_Chat, messages = [], createdAt = 30\<rparr>,
                      \<lparr>chat_id = js ''b'', title = New_Chat, messages = [], createdAt = 20\<rparr>,
                      \<lparr>chat_id = js ''a'', title = New_Chat, messages = [], createdAt = 10\<rparr>],
            activeChatId := Some (js ''c'')\<rparr>"
    by (simp add: handleSend_def handleSend_call_def eval_defs)
  show ?thesis
    using h r s by (simp add: prod_eq_iff)
qed

text \<open>
  C8: as the source has it, when \<open>handleSend\<close> issues its call to the backend (the text of
  its render is not blank and its render has an active id) and the call throws, whichever
  of the two requests it was and whatever was thrown: the promise of \<open>handleSend\<close>
  resolves, \<open>isLoading\<close> is false at the end, the input is cleared, and every thread with
  the active id has got the user message and then the fixed error text as an assistant
  message, nothing else being changed. Where the ids are distinct and a thread has the
  active id, exactly that thread gets exactly these two messages, so exactly one assistant
  message is appended; where no thread has the active id, no message is stored.
\<close>

theorem handleSend_failure:
  assumes "trim (input snap) \<noteq> []" "activeChatId snap = Some a" "a \<noteq> []"
    and "api (send_request snap) = Inl e"
  shows "handleSend snap d ds api st
           = (Resolved,
              st\<lparr>chats := map (\<lambda>chat. if chat_id chat = a
                        then chat\<lparr>messages := messages chat
                               @ [\<lparr>role = User, content = input snap\<rparr>,
                                  \<lparr>role = Assistant, content = error_text\<rparr>]\<rparr>
                        else chat) (chats st),
                 input := [], showFeatures := False, isLoading := False\<rparr>)
     \<and> fst (handleSend snap d ds api st) = Resolved
     \<and> isLoading (snd (handleSend snap d ds api st)) = False
     \<and> (a \<in> chat_id ` set (chats st) \<and> distinct (map chat_id (chats st)) \<longrightarrow>
          (\<exists>pre t post. chats st = pre @ t # post \<and> chat_id t = a
             \<and> chats (snd (handleSend snap d ds api st))
                 = pre @ t\<lparr>messages := messages t
                               @ [\<lparr>role = User, content = input snap\<rparr>,
                                  \<lparr>role = Assistant, content = error_text\<rparr>]\<rparr> # post))
     \<and> (a \<notin> chat_id ` set (chats st) \<longrightarrow>
          chats (snd (handleSend snap d ds api st)) = chats st)"
proof -
  let ?g = "\<lambda>chat. chat\<lparr>messages := messages chat
                          @ [\<lparr>role = User, content = input snap\<rparr>,
                             \<lparr>role = Assistant, content = error_text\<rparr>]\<rparr>"
  let ?st' = "st\<lparr>chats := map (\<lambda>chat. if chat_id chat = a then ?g chat else chat) (chats st),
                 input := [], showFeatures := False, isLoading := False\<rparr>"
  have call: "handleSend snap d ds api st = (Resolved, ?st')"
    using assms
    by (simp add: handleSend_def handleSend_call_def send_try_def Let_def
        handleSend_timers_Resolved appendMessage_def)
  have ch: "chats (snd (handleSend snap d ds api st))
      = map (\<lambda>chat. if chat_id chat = a then ?g chat else chat) (chats st)"
    by (simp add: call)
  have split: "\<exists>pre t post. chats st = pre @ t # post \<and> chat_id t = a
        \<and> chats (snd (handleSend snap d ds api st)) = pre @ ?g t # post"
    if "a \<in> chat_id ` set (chats st)" "distinct (map chat_id (chats st))"
    unfolding ch using that(2,1) by (rule map_if_id_split)
  have notin: "chats (snd (handleSend snap d ds api st)) = chats st"
    if "a \<notin> chat_id ` set (chats st)"
    unfolding ch using that by (rule map_if_id_notin)
  show ?thesis
    using call split notin by simp
qed

text \<open>
  One thread, active; the text \<open>hi\<close>; the backend fails.
\<close>

theorem handleSend_failure_witness:
  "handleSend ((handleNewChat (js ''a'', 10) (init empty_storage))\<lparr>input := js ''hi''\<rparr>)
      (js ''b'', 20) [] (\<lambda>q. Inl () :: unit + jsstring)
      ((handleNewChat (js ''a'', 10) (init empty_storage))\<lparr>input := js ''hi''\<rparr>)
    = (Resolved,
       (init empty_storage)
         \<lparr>chats := [\<lparr>chat_id = js ''a'', title = New_Chat,
                     messages = [\<lparr>role = User, content = js ''hi''\<rparr>,
                                 \<lparr>role = Assistant, content = error_text\<rparr>],
                     createdAt = 10\<rparr>],
          activeChatId := Some (js ''a''),
          showFeatures := False\<rparr>)
   \<and> js ''a'' \<in> chat_id ` set (chats ((handleNewChat (js ''a'', 10) (init empty_storage))\<lparr>input := js ''hi''\<rparr>))
   \<and> distinct (map chat_id (chats ((handleNewChat (js ''a'', 10) (init empty_storage))\<lparr>input := js ''hi''\<rparr>)))"
proof -
  let ?st = "(handleNewChat (js ''a'', 10) (init empty_storage))\<lparr>input := js ''hi''\<rparr>"
  let ?api = "\<lambda>q. Inl () :: unit + jsstring"
  have h: "trim (input ?st) \<noteq> []" "activeChatId ?st = Some (js ''a'')" "js ''a'' \<noteq> []"
    "?api (send_request ?st) = Inl ()"
    by (simp_all add: eval_defs)
  have m: "js ''a'' \<in> chat_id ` set (chats ?st)" "distinct (map chat_id (chats ?st))"
    by (simp_all add: eval_defs)
  have "handleSend ?st (js ''b'', 20) [] ?api ?st
      = (Resolved,
          ?st\<lparr>chats := map (\<lambda>chat. if chat_id chat = js ''a''
                        then chat\<lparr>messages := messages chat
                               @ [\<lparr>role = User, content = input ?st\<rparr>,
                                  \<lparr>role = Assistant, content = error_text\<rparr>]\<rparr>
                        else chat) (chats ?st),
                 input := [], showFeatures := False, isLoading := False\<rparr>)"
    using handleSend_failure [OF h, of "(js ''b'', 20)" "[]" ?st] by blast
  then show ?thesis
    using m by (simp add: eval_defs)
qed

text \<open>
  After a chat is created and deleted and the page is loaded again, the active id is that of
  the deleted thread and there is no thread. The text \<open>hi\<close> is sent and the backend fails:
  the call is issued, the promise resolves, and no message is stored.
\<close>

theorem handleSend_failure_counterexample:
  "trim (input ((init (snd (run empty_storage [NewChat (js ''a'', 10), DeleteChat (js ''a'')])))
            \<lparr>input := js ''hi''\<rparr>)) \<noteq> []
   \<and> activeChatId ((init (snd (run empty_storage [NewChat (js ''a'', 10), DeleteChat (js ''a'')])))
            \<lparr>input := js ''hi''\<rparr>) = Some (js ''a'')
   \<and> chats ((init (snd (run empty_storage [NewChat (js ''a'', 10), DeleteChat (js ''a'')])))
            \<lparr>input := js ''hi''\<rparr>) = []
   \<and> handleSend
        ((init (snd (run empty_storage [NewChat (js ''a'', 10), DeleteChat (js ''a'')])))
            \<lparr>input := js ''hi''\<rparr>)
        (js ''b'', 20) [] (\<lambda>q. Inl () :: unit + jsstring)
        ((init (snd (run empty_storage [NewChat (js ''a'', 10), DeleteChat (js ''a'')])))
            \<lparr>input := js ''hi''\<rparr>)
      = (Resolved,
         (init empty_storage)\<lparr>activeChatId := Some (js ''a''), showFeatures := False\<rparr>)
   \<and> chats (snd (handleSend
        ((init (snd (run empty_storage [NewChat (js ''a'', 10), DeleteChat (js ''a'')])))
            \<lparr>input := js ''hi''\<rparr>)
        (js ''b'', 20) [] (\<lambda>q. Inl () :: unit + jsstring)
        ((init (snd (run empty_storage [NewChat (js ''a'', 10), DeleteChat (js ''a'')])))
            \<lparr>input := js ''hi''\<rparr>))) = []"
  by (simp add: run_def mount_def init_def empty_storage_def dispatch_def handleNewChat_def
      handleDeleteChat_def commit_def effect_chats_def effect_activeChatId_def appendMessage_def
      handleSend_def handleSend_call_def send_try_def send_request_def
      js_def trim_def isSpace_def Let_def)

section \<open>Uploading a file\<close>




end
